theory Spec2Isabelle
  imports Main "HOL-Library.Sublist"
begin

section \<open>Strings\<close>

text \<open>
  A JavaScript string is modelled as a \<^typ>\<open>string\<close>, template literals and \<open>+\<close> as
  \<open>@\<close>. \<open>s.startsWith(p)\<close> and \<open>s.endsWith(p)\<close> compare code units from the start or the
  end of \<open>s\<close>, which is the prefix and the suffix order of lists.
\<close>

definition startsWith :: "string \<Rightarrow> string \<Rightarrow> bool" where
  "startsWith s p = prefix p s"

definition endsWith :: "string \<Rightarrow> string \<Rightarrow> bool" where
  "endsWith s p = suffix p s"

text \<open>
  \<open>s.split(c)\<close> for a separator of one character: the pieces between the occurrences of
  \<open>c\<close>, empty pieces included, so the result is never empty (\<open>"".split("-")\<close> is
  \<open>[""]\<close>). The last case of the inner \<open>case\<close> is never reached.
\<close>

fun split :: "char \<Rightarrow> string \<Rightarrow> string list" where
  "split c [] = [[]]"
| "split c (x # xs) =
     (if x = c then [] # split c xs
      else (case split c xs of w # ws \<Rightarrow> (x # w) # ws | [] \<Rightarrow> [[x]]))"

text \<open>\<open>xs[i]\<close>: \<open>undefined\<close> (here \<open>None\<close>) out of range.\<close>

definition at_index :: "'a list \<Rightarrow> nat \<Rightarrow> 'a option" where
  "at_index xs i = (if i < length xs then Some (xs ! i) else None)"

text \<open>A value that may be \<open>undefined\<close>, concatenated to a string.\<close>

definition str :: "string option \<Rightarrow> string" where
  "str v = (case v of Some s \<Rightarrow> s | None \<Rightarrow> ''undefined'')"


section \<open>The version resolver\<close>

definition StableVersion :: string where
  "StableVersion = ''4.2''"

definition findFPCVersion :: "string \<Rightarrow> string" where
  "findFPCVersion ver =
     (if startsWith ver ''2.0.1'' then ''3.2.0''
      else if startsWith ver ''2.0.'' \<or> startsWith ver ''1.8'' then ''3.0.4''
      else if ver = ''1.6.4'' then ''3.0.2''
      else if startsWith ver ''1.6'' then ''3.0.0''
      else if ver = ''1.2.0'' \<or> startsWith ver ''1.0'' then ''2.6.2''
      else if startsWith ver ''1.4'' \<or> startsWith ver ''1.2'' then ''2.6.4''
      else ''3.2.2'')"

text \<open>
  The rule table in the words of the specification: an ordered list of rules, each a
  prefix or an exact match with its result; the first rule that matches decides, and the
  default is returned when none does.
\<close>

datatype rule = Prefix string | Exact string

fun matches :: "rule \<Rightarrow> string \<Rightarrow> bool" where
  "matches (Prefix p) ver = prefix p ver"
| "matches (Exact e) ver = (ver = e)"

fun resolve :: "(rule \<times> string) list \<Rightarrow> string \<Rightarrow> string \<Rightarrow> string" where
  "resolve [] dflt ver = dflt"
| "resolve ((r, v) # rs) dflt ver = (if matches r ver then v else resolve rs dflt ver)"

definition fpcRules :: "(rule \<times> string) list" where
  "fpcRules =
     [(Prefix ''2.0.1'', ''3.2.0''),
      (Prefix ''2.0.'', ''3.0.4''),
      (Prefix ''1.8'', ''3.0.4''),
      (Exact ''1.6.4'', ''3.0.2''),
      (Prefix ''1.6'', ''3.0.0''),
      (Exact ''1.2.0'', ''2.6.2''),
      (Prefix ''1.0'', ''2.6.2''),
      (Prefix ''1.4'', ''2.6.4''),
      (Prefix ''1.2'', ''2.6.4'')]"

definition defaultFPCVersion :: string where
  "defaultFPCVersion = ''3.2.2''"


section \<open>Artifact file names\<close>

text \<open>
  \<open>createLazarusFileName\<close> returns one file name on Windows and an object with the
  three file names elsewhere. It reads \<open>os.platform()\<close> and \<open>os.arch()\<close>, which are
  fields of the runner here.
\<close>

record artifacts =
  laz :: string
  fpc :: string
  fpcsrc :: string

datatype fileName = Name string | Artifacts artifacts

definition createLazarusFileName :: "string \<Rightarrow> string \<Rightarrow> string \<Rightarrow> fileName" where
  "createLazarusFileName p a ver =
     (let fpcver = findFPCVersion ver in
      if startsWith p ''win'' then
        Name (''lazarus-'' @ ver @ ''-fpc-'' @ fpcver @ ''-''
              @ (if a = ''x64'' then ''win64'' else ''win32'') @ ''.exe'')
      else
        let fpcverSuffix =
          (if p = ''darwin'' then
             (if fpcver = ''3.2.0'' then ''2''
              else if fpcver = ''3.2.2'' then ''20210709''
              else '''')
           else
             (if fpcver = ''3.2.2'' then ''210709''
              else if fpcver = ''3.2.0'' then ''1''
              else if fpcver = ''3.0.4'' then ''2''
              else if fpcver = ''3.0.2'' then ''170225''
              else if fpcver = ''3.0.0'' then ''151205''
              else if fpcver = ''2.6.4'' then
                (if startsWith ver ''1.2.'' \<and> ver \<noteq> ''1.2.0'' then ''140420'' else ''150228'')
              else if fpcver = ''2.6.2'' then ''0''
              else ''''))
        in
        if p = ''darwin'' then
          (if ver \<noteq> ''2.0.8'' then
             Artifacts \<lparr>
               laz = ''Lazarus-'' @ ver @ ''-macosx-'' @ p @ ''.pkg'',
               fpc = ''fpc-'' @ fpcver @ ''.intel''
                     @ (if startsWith fpcver ''2.0'' then '''' else ''arm64'') @ ''-macosx.dmg'',
               fpcsrc = ''fpc-src-'' @ fpcver @ ''-'' @ fpcverSuffix @ ''-laz.''
                     @ (if startsWith ver ''2.0'' then ''pkg'' else ''dmg'') \<rparr>
           else
             Artifacts \<lparr>
               laz = ''LazarusIDE-2.0.8-macos-x86_64.pkg'',
               fpc = ''fpc-3.0.4-macos-x86_64-laz-2.dmg'',
               fpcsrc = ''fpc-src-3.0.4-laz.pkg'' \<rparr>)
        else
          Artifacts \<lparr>
            laz = ''lazarus-project_'' @ ver @ ''-0_amd64.deb'',
            fpc = ''fpc'' @ (if \<not> startsWith ver ''1.'' then ''_'' else ''-laz-'') @ fpcver @ ''-''
                  @ (if fpcver = ''3.0.4'' then ''1'' else fpcverSuffix) @ ''_amd64.deb'',
            fpcsrc = ''fpc-src_'' @ fpcver @ ''-'' @ fpcverSuffix @ ''_amd64.deb'' \<rparr>)"


section \<open>The runner, its events and the outcome of a run\<close>

text \<open>
  Everything the installer does to its surroundings is an event of the run, appended to
  the history in the order of the calls: a message of \<open>core.info\<close>, a command given to
  \<open>exec\<close>, a download by \<open>tc.downloadTool\<close> (the address and the destination), a
  directory given to \<open>core.addPath\<close>, a variable exported by \<open>core.exportVariable\<close>,
  and a call of \<open>Cache.restore\<close> (with the key in force).
\<close>

datatype event =
    Info string
  | Exec string
  | DownloadTool string string
  | AddPath string
  | ExportVariable string string
  | CacheRestore string

text \<open>
  What is thrown: \<open>Error\<close> is \<open>new Error(message)\<close> of the installer itself,
  \<open>AssertionError\<close> the failure of \<open>ok\<close> of \<open>assert\<close>, \<open>TypeError\<close> what
  \<open>path.join\<close> throws on an argument that is not a string; the others are the
  rejections of \<open>exec\<close> (a command that fails), of \<open>tc.downloadTool\<close> and of
  \<open>fs.readdirSync\<close>.
\<close>

datatype error =
    Error string
  | AssertionError string
  | TypeError
  | ExecFailed string
  | DownloadFailed string
  | ReaddirFailed string

text \<open>
  The runner is the host of the run: \<open>os.platform()\<close>, \<open>os.arch()\<close>, the environment
  variable \<open>RUNNER_TEMP\<close> (\<open>None\<close> when it is not set), \<open>path.join\<close> of Node, and how
  the outside answers each call. An answer may depend on everything done so far (a disk
  image is in \<open>/Volumes\<close> only after it was attached), so each of them takes the history:
  whether a command succeeds, where a download ends up (\<open>None\<close> when it fails), the
  entries of a directory (\<open>None\<close> when it cannot be read), whether a path exists, and
  whether the cache holds an entry for a key.
\<close>

record runner =
  platform :: string
  arch :: string
  RUNNER_TEMP :: "string option"
  pathJoin :: "string list \<Rightarrow> string"
  execOk :: "event list \<Rightarrow> string \<Rightarrow> bool"
  download :: "event list \<Rightarrow> string \<Rightarrow> string \<Rightarrow> string option"
  readdir :: "event list \<Rightarrow> string \<Rightarrow> string list option"
  pathExists :: "event list \<Rightarrow> string \<Rightarrow> bool"
  cacheHit :: "event list \<Rightarrow> string \<Rightarrow> bool"

text \<open>
  An action takes the history and returns what it threw or returned, with the history
  extended by its events. \<open>andThen\<close> is sequencing (\<open>await\<close> and \<open>;\<close>): a throw ends
  the sequence with the events up to it.
\<close>

type_synonym 'a action = "event list \<Rightarrow> (error + 'a) \<times> event list"

definition return :: "'a \<Rightarrow> 'a action" where
  "return x = (\<lambda>h. (Inr x, h))"

definition throw :: "error \<Rightarrow> 'a action" where
  "throw e = (\<lambda>h. (Inl e, h))"

definition andThen :: "'a action \<Rightarrow> ('a \<Rightarrow> 'b action) \<Rightarrow> 'b action" where
  "andThen m f = (\<lambda>h. case m h of (Inl e, h') \<Rightarrow> (Inl e, h') | (Inr x, h') \<Rightarrow> f x h')"

definition info :: "string \<Rightarrow> unit action" where
  "info msg = (\<lambda>h. (Inr (), h @ [Info msg]))"

definition addPath :: "string \<Rightarrow> unit action" where
  "addPath dir = (\<lambda>h. (Inr (), h @ [AddPath dir]))"

definition exportVariable :: "string \<Rightarrow> string \<Rightarrow> unit action" where
  "exportVariable name val = (\<lambda>h. (Inr (), h @ [ExportVariable name val]))"

definition exec :: "runner \<Rightarrow> string \<Rightarrow> unit action" where
  "exec r cmd =
     (\<lambda>h. (if execOk r h cmd then Inr () else Inl (ExecFailed cmd), h @ [Exec cmd]))"

definition downloadTool :: "runner \<Rightarrow> string \<Rightarrow> string \<Rightarrow> string action" where
  "downloadTool r url dest =
     (\<lambda>h. (case download r h url dest of
              Some path \<Rightarrow> Inr path
            | None \<Rightarrow> Inl (DownloadFailed url),
           h @ [DownloadTool url dest]))"

definition readdirSync :: "runner \<Rightarrow> string \<Rightarrow> string list action" where
  "readdirSync r dir =
     (\<lambda>h. (case readdir r h dir of
              Some names \<Rightarrow> Inr names
            | None \<Rightarrow> Inl (ReaddirFailed dir),
           h))"

definition existsSync :: "runner \<Rightarrow> string \<Rightarrow> bool action" where
  "existsSync r path = (\<lambda>h. (Inr (pathExists r h path), h))"


section \<open>The cache\<close>

record cache =
  withCache :: bool
  key :: string

text \<open>
  Modelled from the spec: the body of \<open>Cache.restore\<close> (the class \<open>Cache\<close> of
  \<open>./cache\<close>, of which only the calls are in the sources at hand). The specification:
  the cache gate attempts to restore a prior entry for the computed key; it fails on a
  cache miss or when the cache is disabled, and succeeds on an entry for the key.
\<close>

definition restore :: "runner \<Rightarrow> cache \<Rightarrow> bool action" where
  "restore r c =
     (\<lambda>h. (Inr (withCache c \<and> cacheHit r h (key c)), h @ [CacheRestore (key c)]))"


section \<open>The class Lazarus\<close>

text \<open>
  The private fields and methods are written without their leading underscore:
  \<open>Platform\<close> is \<open>_Platform\<close>, \<open>downloadLazarus\<close> is \<open>_downloadLazarus\<close>. The
  methods take the runner and the object \<open>this\<close>.
\<close>

record lazarus =
  Platform :: string
  Arch :: string
  LazarusVersion :: string
  Cache :: cache

definition constructor :: "runner \<Rightarrow> string \<Rightarrow> bool \<Rightarrow> lazarus" where
  "constructor r ver WithCache =
     \<lparr> Platform = platform r,
       Arch = arch r,
       LazarusVersion = ver,
       Cache = \<lparr> withCache = WithCache,
                 key = ver @ ''-'' @ arch r @ ''-'' @ platform r \<rparr> \<rparr>"

text \<open>
  \<open>_getTempDirectory\<close>: \<open>process.env["RUNNER_TEMP"] || ""\<close> is the empty string when
  the variable is not set, and \<open>ok\<close> throws on the empty string.
\<close>

definition getTempDirectory :: "runner \<Rightarrow> string action" where
  "getTempDirectory r =
     (let tempDirectory = (case RUNNER_TEMP r of Some t \<Rightarrow> t | None \<Rightarrow> []) in
      if tempDirectory = [] then throw (AssertionError ''Expected RUNNER_TEMP to be defined'')
      else return (pathJoin r [tempDirectory, ''installers'']))"

text \<open>
  \<open>_getPackageURL\<close>. \<open>createLazarusFileName(v)[pkg]\<close> reads a property of the result:
  one of the three names for the keys \<open>laz\<close>, \<open>fpc\<close> and \<open>fpcsrc\<close> of the object, the
  only keys a call passes, and \<open>undefined\<close> otherwise and on a string; on Windows the
  result is appended as it is, an object as \<open>[object Object]\<close>. On a platform other
  than the three the result stays empty.
\<close>

definition property :: "fileName \<Rightarrow> string \<Rightarrow> string option" where
  "property f pkg =
     (case f of
        Name n \<Rightarrow> None
      | Artifacts a \<Rightarrow>
          if pkg = ''laz'' then Some (laz a)
          else if pkg = ''fpc'' then Some (fpc a)
          else if pkg = ''fpcsrc'' then Some (fpcsrc a)
          else None)"

definition toString :: "fileName \<Rightarrow> string" where
  "toString f = (case f of Name n \<Rightarrow> n | Artifacts a \<Rightarrow> ''[object Object]'')"

definition getPackageURL :: "runner \<Rightarrow> lazarus \<Rightarrow> string \<Rightarrow> string" where
  "getPackageURL r this pkg =
     (if Platform this = ''win32'' then
        (if Arch this = ''x64'' then
           ''https://sourceforge.net/projects/lazarus/files/Lazarus%20Windows%2064%20bits/Lazarus%20''
           @ LazarusVersion this @ ''/''
         else
           ''https://sourceforge.net/projects/lazarus/files/Lazarus%20Windows%2032%20bits/Lazarus%20''
           @ LazarusVersion this @ ''/'')
        @ toString (createLazarusFileName (platform r) (arch r) (LazarusVersion this))
      else if Platform this = ''linux'' then
        ''https://sourceforge.net/projects/lazarus/files/Lazarus%20Linux%20amd64%20DEB/Lazarus%20''
        @ LazarusVersion this @ ''/''
        @ str (property (createLazarusFileName (platform r) (arch r) (LazarusVersion this)) pkg)
      else if Platform this = ''darwin'' then
        ''https://sourceforge.net/projects/lazarus/files/Lazarus%20macOS%20x86-64/Lazarus%20''
        @ LazarusVersion this @ ''/''
        @ str (property (createLazarusFileName (platform r) (arch r) (LazarusVersion this)) pkg)
      else [])"

text \<open>
  \<open>_downloadLazarus\<close> gets every installer file in the same way, written out in the
  source at each of its seven places: the local file of the cache when the cache was
  restored, a download to that local file otherwise. The arguments of a call are
  evaluated before it, so \<open>_getTempDirectory\<close> comes before the download.
\<close>

definition fetch :: "runner \<Rightarrow> bool \<Rightarrow> string \<Rightarrow> string \<Rightarrow> string action" where
  "fetch r cacheRestored url name =
     (if cacheRestored then
        andThen (getTempDirectory r) (\<lambda>tmp.
        let downloadPath = pathJoin r [tmp, name] in
        andThen (info (''_downloadLazarus - Using cache restored into '' @ downloadPath)) (\<lambda>_.
        return downloadPath))
      else
        andThen (getTempDirectory r) (\<lambda>tmp.
        andThen (downloadTool r url (pathJoin r [tmp, name])) (\<lambda>downloadPath.
        andThen (info (''_downloadLazarus - Downloaded into '' @ downloadPath)) (\<lambda>_.
        return downloadPath))))"

text \<open>The case \<open>win32\<close> of \<open>_downloadLazarus\<close>.\<close>

definition downloadLazarus_win32 :: "runner \<Rightarrow> lazarus \<Rightarrow> bool \<Rightarrow> unit action" where
  "downloadLazarus_win32 r this cacheRestored =
     (let downloadURL = getPackageURL r this ''laz'' in
      andThen (info (''_downloadLazarus - Downloading '' @ downloadURL)) (\<lambda>_.
      andThen (fetch r cacheRestored downloadURL
                 (''lazarus-'' @ LazarusVersion this @ ''.exe'')) (\<lambda>downloadPath_WIN.
      andThen (getTempDirectory r) (\<lambda>tmp.
      let lazarusDir = pathJoin r [tmp, ''lazarus''] in
      andThen (exec r (downloadPath_WIN @ '' /VERYSILENT /SP- /DIR='' @ lazarusDir)) (\<lambda>_.
      andThen (addPath lazarusDir) (\<lambda>_.
      andThen (info (''_downloadLazarus - Adding '' @ [CHR 0x27] @ lazarusDir @ [CHR 0x27]
                     @ '' to PATH'')) (\<lambda>_.
      case createLazarusFileName (platform r) (arch r) (LazarusVersion this) of
        Artifacts a \<Rightarrow> throw TypeError
      | Name n \<Rightarrow>
          (case at_index (split CHR ''-'' n) 3 of
             None \<Rightarrow> throw TypeError
           | Some fpc_version \<Rightarrow>
               let fpcDir = pathJoin r [lazarusDir, ''fpc'', fpc_version, ''bin'',
                     ''x86_64-'' @ (if arch r = ''x64'' then ''win64'' else ''win32'')] in
               andThen (addPath fpcDir) (\<lambda>_.
               andThen (info (''_downloadLazarus - Added '' @ [CHR 0x27] @ fpcDir @ [CHR 0x27]
                              @ '' to PATH'')) (\<lambda>_.
               exportVariable ''FPCDIR'' (pathJoin r [lazarusDir, ''fpc'', fpc_version])))))))))))"

text \<open>
  The case \<open>linux\<close>: after the update of the package index, the same block for the
  sources of the compiler, the compiler and the IDE.
\<close>

definition installDeb :: "runner \<Rightarrow> lazarus \<Rightarrow> bool \<Rightarrow> string \<Rightarrow> string \<Rightarrow> unit action" where
  "installDeb r this cacheRestored pkg name =
     (let downloadURL = getPackageURL r this pkg in
      andThen (info (''_downloadLazarus - Downloading '' @ downloadURL)) (\<lambda>_.
      andThen (fetch r cacheRestored downloadURL name) (\<lambda>downloadPath_LIN.
      exec r (''sudo apt install -y '' @ downloadPath_LIN))))"

definition downloadLazarus_linux :: "runner \<Rightarrow> lazarus \<Rightarrow> bool \<Rightarrow> unit action" where
  "downloadLazarus_linux r this cacheRestored =
     andThen (exec r ''sudo apt update'') (\<lambda>_.
     andThen (installDeb r this cacheRestored ''fpcsrc'' ''fpcsrc.deb'') (\<lambda>_.
     andThen (installDeb r this cacheRestored ''fpc'' ''fpc.deb'') (\<lambda>_.
     installDeb r this cacheRestored ''laz'' ''lazarus.deb'')))"

text \<open>
  The case \<open>darwin\<close>: the same block three times, for the local names \<open>fpcsrc\<close>,
  \<open>fpc\<close> and \<open>lazarus\<close>. A disk image is attached and the package in it installed;
  \<open>xs[0]\<close> of an empty list is \<open>undefined\<close> and is concatenated as such.
\<close>

definition installPkg :: "runner \<Rightarrow> lazarus \<Rightarrow> bool \<Rightarrow> string \<Rightarrow> string \<Rightarrow> unit action" where
  "installPkg r this cacheRestored pkg name =
     (let downloadURL = getPackageURL r this pkg in
      andThen (info (''_downloadLazarus - Downloading '' @ downloadURL)) (\<lambda>_.
      let downloadName = (if endsWith downloadURL ''.dmg'' then name @ ''.dmg'' else name @ ''.pkg'') in
      andThen (fetch r cacheRestored downloadURL downloadName) (\<lambda>downloadPath_DAR.
      if downloadName = name @ ''.dmg'' then
        andThen (exec r (''sudo hdiutil attach '' @ downloadPath_DAR)) (\<lambda>_.
        andThen (readdirSync r ''/Volumes'') (\<lambda>volumes.
        let vol = filter (\<lambda>fn. startsWith fn name) volumes in
        andThen (readdirSync r (''/Volumes/'' @ str (at_index vol 0))) (\<lambda>files.
        andThen (if at_index (filter (\<lambda>fn. endsWith fn ''.pkg'') files) 0 = None then
                   andThen (readdirSync r (''/Volumes/'' @ str (at_index vol 0))) (\<lambda>files'.
                   return (filter (\<lambda>fn. endsWith fn ''.mpkg'') files'))
                 else return (filter (\<lambda>fn. endsWith fn ''.pkg'') files)) (\<lambda>loc.
        let full_path = ''/Volumes/'' @ str (at_index vol 0) @ ''/'' @ str (at_index loc 0) in
        exec r (''sudo installer -package '' @ full_path @ '' -target /'')))))
      else
        exec r (''sudo installer -package '' @ downloadPath_DAR @ '' -target /''))))"

definition lazLibPath :: string where
  "lazLibPath = ''/Library/Lazarus/lazbuild''"

definition lazAppPath :: string where
  "lazAppPath = ''/Applications/Lazarus/lazbuild''"

definition updateSymlink :: "runner \<Rightarrow> unit action" where
  "updateSymlink r =
     andThen (existsSync r lazLibPath) (\<lambda>inLibrary.
     if inLibrary then
       info ''_downloadLazarus - Do not need to update lazbuild symlink''
     else
       andThen (existsSync r lazAppPath) (\<lambda>inApplications.
       if inApplications then
         andThen (info (''_downloadLazarus - Updating lazbuild symlink to '' @ lazAppPath)) (\<lambda>_.
         andThen (exec r ''rm -rf /usr/local/bin/lazbuild'') (\<lambda>_.
         exec r (''ln -s '' @ lazAppPath @ '' /usr/local/bin/lazbuild'')))
       else
         throw (Error (''Could not find lazbuild in '' @ lazLibPath @ '' or '' @ lazAppPath))))"

definition installPkgs :: "runner \<Rightarrow> lazarus \<Rightarrow> bool \<Rightarrow> unit action" where
  "installPkgs r this cacheRestored =
     andThen (installPkg r this cacheRestored ''fpcsrc'' ''fpcsrc'') (\<lambda>_.
     andThen (installPkg r this cacheRestored ''fpc'' ''fpc'') (\<lambda>_.
     installPkg r this cacheRestored ''laz'' ''lazarus''))"

definition downloadLazarus_darwin :: "runner \<Rightarrow> lazarus \<Rightarrow> bool \<Rightarrow> unit action" where
  "downloadLazarus_darwin r this cacheRestored =
     andThen (installPkgs r this cacheRestored) (\<lambda>_. updateSymlink r)"

text \<open>\<open>_downloadLazarus\<close>: the cache, then the switch on the platform.\<close>

definition downloadLazarus :: "runner \<Rightarrow> lazarus \<Rightarrow> unit action" where
  "downloadLazarus r this =
     andThen (if Platform this \<noteq> ''win32'' then restore r (Cache this) else return False)
       (\<lambda>cacheRestored.
     if Platform this = ''win32'' then downloadLazarus_win32 r this cacheRestored
     else if Platform this = ''linux'' then downloadLazarus_linux r this cacheRestored
     else if Platform this = ''darwin'' then downloadLazarus_darwin r this cacheRestored
     else throw (Error (''_downloadLazarus - Platform not implemented: '' @ Platform this)))"

text \<open>
  \<open>installLazarus\<close>. The assignments to \<open>this._LazarusVersion\<close> and
  \<open>this._Cache.key\<close> are updates of the object handed to \<open>_downloadLazarus\<close>.
\<close>

definition rewriteVersion :: "lazarus \<Rightarrow> lazarus" where
  "rewriteVersion this =
     (let this1 = this\<lparr>LazarusVersion := StableVersion\<rparr> in
      this1\<lparr>Cache := (Cache this1)\<lparr>key :=
        LazarusVersion this1 @ ''-'' @ Arch this1 @ ''-'' @ Platform this1\<rparr>\<rparr>)"

definition installLazarus :: "runner \<Rightarrow> lazarus \<Rightarrow> unit action" where
  "installLazarus r this =
     andThen (info (''installLazarus -- Installing Lazarus '' @ LazarusVersion this
                    @ '' on platform: '' @ [CHR 0x22] @ Platform this @ [CHR 0x22]
                    @ ''; arch: '' @ [CHR 0x22] @ Arch this @ [CHR 0x22])) (\<lambda>_.
     if LazarusVersion this = ''dist'' then
       (if Platform this = ''linux'' then
          andThen (exec r ''sudo apt update'') (\<lambda>_.
          exec r ''sudo apt install -y lazarus --no-install-recommends'')
        else if Platform this = ''win32'' then
          downloadLazarus r (rewriteVersion this)
        else
          throw (Error (''getLazarus - Platform not supported: '' @ Platform this)))
     else if LazarusVersion this = ''stable'' then
       downloadLazarus r (rewriteVersion this)
     else if Platform this = ''darwin''
          \<and> ((startsWith (LazarusVersion this) ''2.0'' \<and> LazarusVersion this \<noteq> ''2.0.8'')
             \<or> startsWith (LazarusVersion this) ''1.'') then
       throw (Error ''GitHub runners do not support Lazarus below 2.0.8 on macos'')
     else
       downloadLazarus r this)"

text \<open>
  \<open>installLazarus\<close> with the procedure it calls for the versioned download as a
  parameter \<open>dl\<close>, to speak of the objects the procedure is called on:
  \<open>installLazarus\<close> is the instance for \<open>_downloadLazarus\<close>. The guarded procedure
  is \<open>dl\<close> on the objects whose key is the composite of version, architecture and
  platform, and \<open>other\<close> on the rest.
\<close>

definition installLazarus_with ::
  "(runner \<Rightarrow> lazarus \<Rightarrow> unit action) \<Rightarrow> runner \<Rightarrow> lazarus \<Rightarrow> unit action" where
  "installLazarus_with dl r this =
     andThen (info (''installLazarus -- Installing Lazarus '' @ LazarusVersion this
                    @ '' on platform: '' @ [CHR 0x22] @ Platform this @ [CHR 0x22]
                    @ ''; arch: '' @ [CHR 0x22] @ Arch this @ [CHR 0x22])) (\<lambda>_.
     if LazarusVersion this = ''dist'' then
       (if Platform this = ''linux'' then
          andThen (exec r ''sudo apt update'') (\<lambda>_.
          exec r ''sudo apt install -y lazarus --no-install-recommends'')
        else if Platform this = ''win32'' then
          dl r (rewriteVersion this)
        else
          throw (Error (''getLazarus - Platform not supported: '' @ Platform this)))
     else if LazarusVersion this = ''stable'' then
       dl r (rewriteVersion this)
     else if Platform this = ''darwin''
          \<and> ((startsWith (LazarusVersion this) ''2.0'' \<and> LazarusVersion this \<noteq> ''2.0.8'')
             \<or> startsWith (LazarusVersion this) ''1.'') then
       throw (Error ''GitHub runners do not support Lazarus below 2.0.8 on macos'')
     else
       dl r this)"

definition guarded ::
  "(runner \<Rightarrow> lazarus \<Rightarrow> unit action) \<Rightarrow> (runner \<Rightarrow> lazarus \<Rightarrow> unit action)
    \<Rightarrow> runner \<Rightarrow> lazarus \<Rightarrow> unit action" where
  "guarded dl other r this =
     (if key (Cache this) = LazarusVersion this @ ''-'' @ Arch this @ ''-'' @ Platform this
      then dl r this else other r this)"


section \<open>Reading a history\<close>

text \<open>
  What a history holds: the addresses downloaded, the commands, the keys of the cache
  restores, the directories added to the path and the variables exported, each in the
  order of the calls; and the events a run added to the history it started from.
\<close>

fun downloadURLs :: "event list \<Rightarrow> string list" where
  "downloadURLs [] = []"
| "downloadURLs (DownloadTool url dest # es) = url # downloadURLs es"
| "downloadURLs (e # es) = downloadURLs es"

fun commands :: "event list \<Rightarrow> string list" where
  "commands [] = []"
| "commands (Exec cmd # es) = cmd # commands es"
| "commands (e # es) = commands es"

fun restores :: "event list \<Rightarrow> string list" where
  "restores [] = []"
| "restores (CacheRestore k # es) = k # restores es"
| "restores (e # es) = restores es"

fun pathsAdded :: "event list \<Rightarrow> string list" where
  "pathsAdded [] = []"
| "pathsAdded (AddPath dir # es) = dir # pathsAdded es"
| "pathsAdded (e # es) = pathsAdded es"

fun exported :: "event list \<Rightarrow> (string \<times> string) list" where
  "exported [] = []"
| "exported (ExportVariable name val # es) = (name, val) # exported es"
| "exported (e # es) = exported es"

definition newEvents :: "event list \<Rightarrow> event list \<Rightarrow> event list" where
  "newEvents h h' = drop (length h) h'"

definition failed :: "(error + 'a) \<times> event list \<Rightarrow> bool" where
  "failed out = isl (fst out)"


section \<open>The words of the specification\<close>

text \<open>
  The artifacts a platform requires, as the addresses of their downloads in the order of
  the installation: the installer on Windows; the sources of the compiler, the compiler
  and the IDE on Linux and macOS.
\<close>

definition requiredURLs :: "runner \<Rightarrow> lazarus \<Rightarrow> string list" where
  "requiredURLs r this =
     (if Platform this = ''win32'' then [getPackageURL r this ''laz'']
      else if Platform this = ''linux'' \<or> Platform this = ''darwin'' then
        [getPackageURL r this ''fpcsrc'', getPackageURL r this ''fpc'',
         getPackageURL r this ''laz'']
      else [])"

text \<open>
  The cache restore succeeds in a run of \<open>_downloadLazarus\<close> from the history \<open>h\<close>:
  the restore is called (the platform is not Windows) and returns true.
\<close>

definition restoreSucceeds :: "runner \<Rightarrow> lazarus \<Rightarrow> event list \<Rightarrow> bool" where
  "restoreSucceeds r this h =
     (Platform this \<noteq> ''win32'' \<and> fst (restore r (Cache this) h) = Inr True)"

text \<open>
  An action started from \<open>h\<close> issues the downloads \<open>urls\<close>: it only adds events to
  \<open>h\<close>; the downloads it adds are the first of \<open>urls\<close>, in their order, and all of
  them unless the action fails.
\<close>

definition issues :: "'a action \<Rightarrow> event list \<Rightarrow> string list \<Rightarrow> bool" where
  "issues m h urls =
     (take (length h) (snd (m h)) = h
      \<and> prefix (downloadURLs (newEvents h (snd (m h)))) urls
      \<and> (failed (m h) \<or> downloadURLs (newEvents h (snd (m h))) = urls))"

text \<open>The name of the installer for Windows: \<open>lazarus-<version>-fpc-<fpcver>-<arch>.exe\<close>.\<close>

definition installerName :: "runner \<Rightarrow> string \<Rightarrow> string" where
  "installerName r ver =
     ''lazarus-'' @ ver @ ''-fpc-'' @ findFPCVersion ver @ ''-''
     @ (if arch r = ''x64'' then ''win64'' else ''win32'') @ ''.exe''"


section \<open>Sample runners\<close>

text \<open>
  Runners for concrete runs. \<open>joinPath\<close> is \<open>path.join\<close> of POSIX on parts that need no
  normalisation. On the sample runner every command succeeds, every download ends up at
  its destination, \<open>/Volumes\<close> holds one volume for each disk image and every volume
  one package, no path exists and the cache is empty.
\<close>

fun joinPath :: "string list \<Rightarrow> string" where
  "joinPath [] = ''.''"
| "joinPath [x] = x"
| "joinPath (x # y # ys) = x @ ''/'' @ joinPath (y # ys)"

definition sampleRunner :: "string \<Rightarrow> string option \<Rightarrow> runner" where
  "sampleRunner p tmp =
     \<lparr> platform = p,
       arch = ''x64'',
       RUNNER_TEMP = tmp,
       pathJoin = joinPath,
       execOk = (\<lambda>h cmd. True),
       download = (\<lambda>h url dest. Some dest),
       readdir = (\<lambda>h dir. if dir = ''/Volumes'' then Some [''fpc-3.2.2'', ''fpcsrc'', ''lazarus'']
                           else Some [''install.pkg'']),
       pathExists = (\<lambda>h path. False),
       cacheHit = (\<lambda>h k. False) \<rparr>"

text \<open>The sample runner with no network: every download fails.\<close>

definition offlineRunner :: "string \<Rightarrow> string option \<Rightarrow> runner" where
  "offlineRunner p tmp = (sampleRunner p tmp)\<lparr>download := (\<lambda>h url dest. None)\<rparr>"

text \<open>The sample runner with a cache that holds an entry for every key.\<close>

definition cachedRunner :: "string \<Rightarrow> string option \<Rightarrow> runner" where
  "cachedRunner p tmp = (sampleRunner p tmp)\<lparr>cacheHit := (\<lambda>h k. True)\<rparr>"

text \<open>The sample runner on which exactly the paths of \<open>present\<close> exist.\<close>

definition runnerWithPaths :: "string \<Rightarrow> string option \<Rightarrow> string list \<Rightarrow> runner" where
  "runnerWithPaths p tmp present =
     (sampleRunner p tmp)\<lparr>pathExists := (\<lambda>h path. path \<in> set present)\<rparr>"

text \<open>
  The sample runner on which exactly the paths of \<open>present\<close> exist and exactly the
  commands of \<open>failing\<close> fail.
\<close>

definition faultyRunner ::
  "string \<Rightarrow> string option \<Rightarrow> string list \<Rightarrow> string list \<Rightarrow> runner" where
  "faultyRunner p tmp present failing =
     (sampleRunner p tmp)\<lparr>pathExists := (\<lambda>h path. path \<in> set present),
                           execOk := (\<lambda>h cmd. cmd \<notin> set failing)\<rparr>"


section \<open>Facts about strings and histories\<close>

lemmas action_defs = return_def throw_def andThen_def info_def addPath_def exportVariable_def
  exec_def downloadTool_def readdirSync_def existsSync_def restore_def

lemma split_at_sep: "c \<notin> set s \<Longrightarrow> split c (s @ c # t) = s # split c t"
  by (induction s) auto

lemma fourth_component:
  assumes "CHR ''-'' \<notin> set ver" "CHR ''-'' \<notin> set v"
  shows "at_index (split CHR ''-'' (''lazarus-'' @ ver @ ''-fpc-'' @ v @ ''-'' @ w)) 3 = Some v"
  using assms by (simp add: split_at_sep at_index_def)

lemma findFPCVersion_not_2_0: "\<not> prefix ''2.0'' (findFPCVersion ver)"
  by (simp add: findFPCVersion_def)

lemma newEvents_append [simp]: "newEvents h (h @ new) = new"
  by (simp add: newEvents_def)

lemma newEvents_self [simp]: "newEvents h h = []"
  by (simp add: newEvents_def)

lemma newEvents_Nil [simp]: "newEvents [] h = h"
  by (simp add: newEvents_def)

lemma downloadURLs_append: "downloadURLs (a @ b) = downloadURLs a @ downloadURLs b"
  by (induction a rule: downloadURLs.induct) simp_all



lemma endsWith_rev: "endsWith s p = prefix (rev p) (rev s)"
  by (simp add: endsWith_def suffix_to_prefix)

lemmas run_defs = installLazarus_def rewriteVersion_def downloadLazarus_def
  downloadLazarus_linux_def downloadLazarus_win32_def downloadLazarus_darwin_def installPkgs_def
  installPkg_def updateSymlink_def installDeb_def fetch_def getTempDirectory_def
  getPackageURL_def createLazarusFileName_def findFPCVersion_def property_def str_def
  toString_def constructor_def sampleRunner_def offlineRunner_def cachedRunner_def
  runnerWithPaths_def faultyRunner_def startsWith_def endsWith_rev action_defs Let_def StableVersion_def
  at_index_def lazLibPath_def lazAppPath_def failed_def restoreSucceeds_def requiredURLs_def
  installerName_def


section \<open>The downloads of an action\<close>

text \<open>
  The downloads of a sequence are those of its first action followed by those of the
  rest; an action that fails leaves the rest undone.
\<close>

lemma issues_iff:
  "issues m h urls \<longleftrightarrow>
     (\<exists>new. snd (m h) = h @ new \<and> prefix (downloadURLs new) urls
            \<and> (failed (m h) \<or> downloadURLs new = urls))"
proof
  assume a: "issues m h urls"
  then have "snd (m h) = h @ newEvents h (snd (m h))"
    unfolding issues_def newEvents_def by (metis append_take_drop_id)
  with a show "\<exists>new. snd (m h) = h @ new \<and> prefix (downloadURLs new) urls
            \<and> (failed (m h) \<or> downloadURLs new = urls)"
    unfolding issues_def by blast
next
  assume "\<exists>new. snd (m h) = h @ new \<and> prefix (downloadURLs new) urls
            \<and> (failed (m h) \<or> downloadURLs new = urls)"
  then show "issues m h urls"
    unfolding issues_def newEvents_def by auto
qed

lemma issues_andThen:
  assumes m: "issues m h A"
    and f: "\<And>x h'. m h = (Inr x, h') \<Longrightarrow> issues (f x) h' B"
  shows "issues (andThen m f) h (A @ B)"
proof (cases "m h")
  case (Pair res h')
  from m obtain n1 where n1: "h' = h @ n1" "prefix (downloadURLs n1) A"
      "failed (m h) \<or> downloadURLs n1 = A"
    unfolding issues_iff Pair by auto
  show ?thesis
  proof (cases res)
    case (Inl e)
    then have "andThen m f h = (Inl e, h')" by (simp add: andThen_def Pair)
    then show ?thesis
      unfolding issues_iff using n1 by (auto simp: failed_def)
  next
    case (Inr x)
    with Pair have mh: "m h = (Inr x, h')" by simp
    from f [OF mh] obtain n2 where n2: "snd (f x h') = h' @ n2" "prefix (downloadURLs n2) B"
      "failed (f x h') \<or> downloadURLs n2 = B"
      unfolding issues_iff by auto
    have eq: "andThen m f h = f x h'" by (simp add: andThen_def mh)
    have A: "downloadURLs n1 = A" using n1(3) mh by (simp add: failed_def)
    show ?thesis
      unfolding issues_iff eq using n1(1) n2 A
      by (intro exI [of _ "n1 @ n2"]) (auto simp: downloadURLs_append)
  qed
qed

lemma issues_before:
  "issues m h [] \<Longrightarrow> (\<And>x h'. m h = (Inr x, h') \<Longrightarrow> issues (f x) h' B) \<Longrightarrow> issues (andThen m f) h B"
  using issues_andThen [of m h "[]" f B] by simp

lemma issues_after:
  "issues m h A \<Longrightarrow> (\<And>x h'. m h = (Inr x, h') \<Longrightarrow> issues (f x) h' []) \<Longrightarrow> issues (andThen m f) h A"
  using issues_andThen [of m h A f "[]"] by simp

lemma issues_info: "issues (info s) h []"
  by (simp add: issues_iff info_def)
lemma issues_return: "issues (return x) h []"
  by (simp add: issues_iff return_def)
lemma issues_throw: "issues (throw e) h []"
  by (simp add: issues_iff throw_def)
lemma issues_exec: "issues (exec r c) h []"
  by (simp add: issues_iff exec_def)
lemma issues_addPath: "issues (addPath d) h []"
  by (simp add: issues_iff addPath_def)
lemma issues_exportVariable: "issues (exportVariable n v) h []"
  by (simp add: issues_iff exportVariable_def)
lemma issues_readdirSync: "issues (readdirSync r d) h []"
  by (simp add: issues_iff readdirSync_def)
lemma issues_existsSync: "issues (existsSync r d) h []"
  by (simp add: issues_iff existsSync_def)
lemma issues_restore: "issues (restore r c) h []"
  by (simp add: issues_iff restore_def)
lemma issues_getTempDirectory: "issues (getTempDirectory r) h []"
  by (simp add: issues_iff getTempDirectory_def return_def throw_def Let_def)
lemma issues_downloadTool: "issues (downloadTool r url dest) h [url]"
  by (simp add: issues_iff downloadTool_def)

lemmas issues_silent = issues_info issues_return issues_throw issues_exec issues_addPath
  issues_exportVariable issues_readdirSync issues_existsSync issues_restore issues_getTempDirectory

lemma issues_fetch: "issues (fetch r c url name) h (if c then [] else [url])"
proof (cases c)
  case True
  then show ?thesis
    by (auto simp: fetch_def Let_def intro!: issues_before issues_silent)
next
  case False
  have "issues (andThen (getTempDirectory r) (\<lambda>tmp.
        andThen (downloadTool r url (pathJoin r [tmp, name])) (\<lambda>downloadPath.
        andThen (info (''_downloadLazarus - Downloaded into '' @ downloadPath)) (\<lambda>_.
        return downloadPath)))) h [url]"
    by (intro issues_before [OF issues_getTempDirectory] issues_after [OF issues_downloadTool]
        issues_before [OF issues_info] issues_return)
  with False show ?thesis by (simp add: fetch_def)
qed

lemma issues_installDeb:
  "issues (installDeb r this c pkg name) h (if c then [] else [getPackageURL r this pkg])"
  unfolding installDeb_def Let_def
  by (intro issues_before [OF issues_info] issues_after [OF issues_fetch] issues_exec)

lemma issues_installPkg:
  "issues (installPkg r this c pkg name) h (if c then [] else [getPackageURL r this pkg])"
  unfolding installPkg_def Let_def
  apply (intro issues_before [OF issues_info] issues_after [OF issues_fetch])
  apply (auto intro!: issues_before issues_silent)
  done


lemma issues_downloadLazarus_win32:
  "issues (downloadLazarus_win32 r this c) h (if c then [] else [getPackageURL r this ''laz''])"
  unfolding downloadLazarus_win32_def Let_def
  apply (intro issues_before [OF issues_info] issues_after [OF issues_fetch])
  apply (auto intro!: issues_before issues_silent split: fileName.splits option.splits)
  done

lemma issues_downloadLazarus_linux:
  "issues (downloadLazarus_linux r this c) h
     (if c then [] else [getPackageURL r this ''fpcsrc'', getPackageURL r this ''fpc'',
                         getPackageURL r this ''laz''])"
proof -
  have "issues (downloadLazarus_linux r this c) h
     ((if c then [] else [getPackageURL r this ''fpcsrc''])
      @ (if c then [] else [getPackageURL r this ''fpc''])
      @ (if c then [] else [getPackageURL r this ''laz'']))"
    unfolding downloadLazarus_linux_def
    by (intro issues_before [OF issues_exec] issues_andThen issues_installDeb)
  then show ?thesis by (cases c) simp_all
qed

lemma issues_installPkgs:
  "issues (installPkgs r this c) h
     (if c then [] else [getPackageURL r this ''fpcsrc'', getPackageURL r this ''fpc'',
                         getPackageURL r this ''laz''])"
proof -
  have "issues (installPkgs r this c) h
     ((if c then [] else [getPackageURL r this ''fpcsrc''])
      @ (if c then [] else [getPackageURL r this ''fpc''])
      @ (if c then [] else [getPackageURL r this ''laz'']))"
    unfolding installPkgs_def
    by (intro issues_andThen issues_installPkg)
  then show ?thesis by (cases c) simp_all
qed

lemma issues_updateSymlink: "issues (updateSymlink r) h []"
  unfolding updateSymlink_def
  by (auto intro!: issues_before issues_silent)

lemma issues_downloadLazarus_darwin:
  "issues (downloadLazarus_darwin r this c) h
     (if c then [] else [getPackageURL r this ''fpcsrc'', getPackageURL r this ''fpc'',
                         getPackageURL r this ''laz''])"
  unfolding downloadLazarus_darwin_def
  by (intro issues_after [OF issues_installPkgs] issues_updateSymlink)

lemma issues_downloadLazarus:
  "issues (downloadLazarus r this) h
     (if restoreSucceeds r this h then [] else requiredURLs r this)"
proof (cases "Platform this = ''win32''")
  case True
  then have "downloadLazarus r this = downloadLazarus_win32 r this False"
    by (simp add: downloadLazarus_def andThen_def return_def)
  with True show ?thesis
    using issues_downloadLazarus_win32 [of r this False h]
    by (simp add: restoreSucceeds_def requiredURLs_def)
next
  case False
  have r: "restore r (Cache this) h = (Inr (restoreSucceeds r this h), h @ [CacheRestore (key (Cache this))])"
    using False by (simp add: restore_def restoreSucceeds_def)
  have "issues (andThen (restore r (Cache this)) (\<lambda>cacheRestored.
     if Platform this = ''win32'' then downloadLazarus_win32 r this cacheRestored
     else if Platform this = ''linux'' then downloadLazarus_linux r this cacheRestored
     else if Platform this = ''darwin'' then downloadLazarus_darwin r this cacheRestored
     else throw (Error (''_downloadLazarus - Platform not implemented: '' @ Platform this)))) h
     (if restoreSucceeds r this h then [] else requiredURLs r this)"
  proof (rule issues_before [OF issues_restore])
    fix x h' assume "restore r (Cache this) h = (Inr x, h')"
    with r have x: "x = restoreSucceeds r this h" by simp
    show "issues (if Platform this = ''win32'' then downloadLazarus_win32 r this x
     else if Platform this = ''linux'' then downloadLazarus_linux r this x
     else if Platform this = ''darwin'' then downloadLazarus_darwin r this x
     else throw (Error (''_downloadLazarus - Platform not implemented: '' @ Platform this))) h'
     (if restoreSucceeds r this h then [] else requiredURLs r this)"
      using False issues_downloadLazarus_linux [of r this x h']
        issues_downloadLazarus_darwin [of r this x h'] issues_throw
      by (auto simp: x requiredURLs_def)
  qed
  with False show ?thesis by (simp add: downloadLazarus_def)
qed


section \<open>The case win32, step by step\<close>

lemma downloadLazarus_on_win32:
  "Platform this = ''win32'' \<Longrightarrow> downloadLazarus r this = downloadLazarus_win32 r this False"
  by (simp add: downloadLazarus_def andThen_def return_def)

lemma win32_no_temp:
  assumes "RUNNER_TEMP r = None \<or> RUNNER_TEMP r = Some []"
  shows "\<exists>msg. downloadLazarus_win32 r this False h =
     (Inl (AssertionError ''Expected RUNNER_TEMP to be defined''), h @ [Info msg])"
  using assms by (auto simp: downloadLazarus_win32_def fetch_def getTempDirectory_def action_defs Let_def)

lemma win32_with_temp:
  assumes "RUNNER_TEMP r = Some t" "t \<noteq> []"
  shows "\<exists>msg dest rest. snd (downloadLazarus_win32 r this False h) =
            h @ Info msg # DownloadTool (getPackageURL r this ''laz'') dest # rest
          \<and> downloadURLs rest = [] \<and> restores rest = []"
  using assms
  by (auto simp: downloadLazarus_win32_def fetch_def getTempDirectory_def action_defs Let_def
      split: option.splits fileName.splits)


lemma installerName_fourth:
  "CHR ''-'' \<notin> set ver \<Longrightarrow>
   at_index (split CHR ''-'' (installerName r ver)) 3 = Some (findFPCVersion ver)"
proof -
  assume a: "CHR ''-'' \<notin> set ver"
  have b: "CHR ''-'' \<notin> set (findFPCVersion ver)"
    by (simp add: findFPCVersion_def)
  show ?thesis
    unfolding installerName_def using fourth_component [OF a b] by simp
qed

lemma win32_name:
  "createLazarusFileName p (arch r) ver = Name n \<Longrightarrow> n = installerName r ver"
  by (auto simp: createLazarusFileName_def installerName_def Let_def split: if_splits)

lemma win32_success:
  assumes "\<not> failed (downloadLazarus_win32 r this False h)"
  shows "\<exists>t v. RUNNER_TEMP r = Some t
           \<and> at_index (split CHR ''-'' (installerName r (LazarusVersion this))) 3 = Some v
           \<and> pathsAdded (newEvents h (snd (downloadLazarus_win32 r this False h))) =
               [pathJoin r [pathJoin r [t, ''installers''], ''lazarus''],
                pathJoin r [pathJoin r [pathJoin r [t, ''installers''], ''lazarus''],
                            ''fpc'', v, ''bin'',
                            ''x86_64-'' @ (if arch r = ''x64'' then ''win64'' else ''win32'')]]
           \<and> exported (newEvents h (snd (downloadLazarus_win32 r this False h))) =
               [(''FPCDIR'',
                 pathJoin r [pathJoin r [pathJoin r [t, ''installers''], ''lazarus''], ''fpc'', v])]"
proof (cases "createLazarusFileName (platform r) (arch r) (LazarusVersion this)")
  case (Artifacts a)
  with assms show ?thesis
    by (auto simp: downloadLazarus_win32_def fetch_def getTempDirectory_def action_defs Let_def
          failed_def split: option.splits if_splits)
next
  case (Name n)
  then have n: "n = installerName r (LazarusVersion this)" by (rule win32_name)
  show ?thesis
  proof (cases "at_index (split CHR ''-'' (installerName r (LazarusVersion this))) 3")
    case None
    with assms Name n show ?thesis
      by (auto simp: downloadLazarus_win32_def fetch_def getTempDirectory_def action_defs Let_def
          failed_def split: option.splits if_splits)
  next
    case (Some v)
    with assms Name n show ?thesis
      by (auto simp: downloadLazarus_win32_def fetch_def getTempDirectory_def action_defs Let_def
          failed_def split: option.splits if_splits)
  qed
qed


lemma downloadLazarus_win32_cache:
  "downloadLazarus_win32 r (this\<lparr>Cache := c\<rparr>) b = downloadLazarus_win32 r this b"
  by (simp add: downloadLazarus_win32_def getPackageURL_def)

lemma installLazarus_eq_with: "installLazarus r this = installLazarus_with downloadLazarus r this"
  by (simp add: installLazarus_def installLazarus_with_def)

lemma constructor_cache:
  "constructor r ver True = (constructor r ver False)\<lparr>Cache := Cache (constructor r ver True)\<rparr>"
  by (simp add: constructor_def)

lemma rewriteVersion_cache:
  "rewriteVersion (constructor r ver True) =
   (rewriteVersion (constructor r ver False))\<lparr>Cache := Cache (rewriteVersion (constructor r ver True))\<rparr>"
  by (simp add: constructor_def rewriteVersion_def Let_def)

lemma downloadLazarus_cache:
  "Platform this = ''win32'' \<Longrightarrow> downloadLazarus r (this\<lparr>Cache := c\<rparr>) = downloadLazarus r this"
  by (simp add: downloadLazarus_on_win32 downloadLazarus_win32_cache)


section \<open>The alias dist and the end of the installation on macOS, step by step\<close>







section \<open>The version resolver: results\<close>


text \<open>
  C1. For every version string, \<open>findFPCVersion\<close> returns what the ordered rule table
  returns: the result of the first rule that matches, in the order 2.0.1 (prefix), 2.0.
  and 1.8 (prefixes), 1.6.4 (exact), 1.6 (prefix), 1.2.0 (exact) and 1.0 (prefix), 1.4
  and 1.2 (prefixes). The order matters: 1.2.0 gives 2.6.2, not 2.6.4, and 1.6.4 gives
  3.0.2, not 3.0.0.
\<close>

theorem findFPCVersion_rule_table:
  "findFPCVersion ver = resolve fpcRules defaultFPCVersion ver
   \<and> findFPCVersion ''1.2.0'' = ''2.6.2''
   \<and> findFPCVersion ''1.2.2'' = ''2.6.4''
   \<and> findFPCVersion ''1.6.4'' = ''3.0.2''
   \<and> findFPCVersion ''1.6.2'' = ''3.0.0''
   \<and> findFPCVersion ''2.0.12'' = ''3.2.0''
   \<and> findFPCVersion ''2.0.8'' = ''3.0.4''"
  by (simp add: findFPCVersion_def fpcRules_def defaultFPCVersion_def startsWith_def)

text \<open>
  C2. A version string that no rule of the table matches, the empty string and any
  malformed string among them, gets the default compiler version 3.2.2.
  \<open>findFPCVersion\<close> is a total function from strings to strings: it compares
  characters only and has no way to fail.
\<close>

theorem findFPCVersion_default:
  "(\<forall>entry \<in> set fpcRules. \<not> matches (fst entry) ver) \<Longrightarrow> findFPCVersion ver = ''3.2.2''"
  by (simp add: findFPCVersion_def fpcRules_def startsWith_def)

theorem findFPCVersion_default_witness:
  "findFPCVersion [] = ''3.2.2'' \<and> findFPCVersion ''latest'' = ''3.2.2''
   \<and> findFPCVersion ''v2.0.12'' = ''3.2.2''"
proof -
  have a: "\<forall>entry \<in> set fpcRules. \<not> matches (fst entry) []"
    by (simp add: fpcRules_def)
  have b: "\<forall>entry \<in> set fpcRules. \<not> matches (fst entry) ''latest''"
    by (simp add: fpcRules_def)
  have c: "\<forall>entry \<in> set fpcRules. \<not> matches (fst entry) ''v2.0.12''"
    by (simp add: fpcRules_def)
  from findFPCVersion_default [OF a] findFPCVersion_default [OF b] findFPCVersion_default [OF c]
  show ?thesis by simp
qed


section \<open>Artifact file names: results\<close>

text \<open>
  C6. On macOS (\<open>os.platform()\<close> is \<open>darwin\<close>) \<open>createLazarusFileName\<close> returns the
  fixed names \<open>LazarusIDE-2.0.8-macos-x86_64.pkg\<close>, \<open>fpc-3.0.4-macos-x86_64-laz-2.dmg\<close>
  and \<open>fpc-src-3.0.4-laz.pkg\<close> exactly when the version is 2.0.8. For every other
  version the names are concatenated from the version and the compiler version that
  \<open>findFPCVersion\<close> resolves.
\<close>

theorem createLazarusFileName_darwin:
  "(createLazarusFileName ''darwin'' a ver =
      Artifacts \<lparr> laz = ''LazarusIDE-2.0.8-macos-x86_64.pkg'',
                  fpc = ''fpc-3.0.4-macos-x86_64-laz-2.dmg'',
                  fpcsrc = ''fpc-src-3.0.4-laz.pkg'' \<rparr>) = (ver = ''2.0.8'')
   \<and> (ver \<noteq> ''2.0.8'' \<longrightarrow>
        createLazarusFileName ''darwin'' a ver =
          Artifacts \<lparr> laz = ''Lazarus-'' @ ver @ ''-macosx-darwin.pkg'',
                      fpc = ''fpc-'' @ findFPCVersion ver @ ''.intelarm64-macosx.dmg'',
                      fpcsrc = ''fpc-src-'' @ findFPCVersion ver @ ''-''
                        @ (if findFPCVersion ver = ''3.2.0'' then ''2''
                           else if findFPCVersion ver = ''3.2.2'' then ''20210709'' else [])
                        @ ''-laz.'' @ (if startsWith ver ''2.0'' then ''pkg'' else ''dmg'') \<rparr>)"
  by (simp add: createLazarusFileName_def Let_def findFPCVersion_not_2_0 startsWith_def)

theorem createLazarusFileName_darwin_witness:
  "createLazarusFileName ''darwin'' ''x64'' ''3.0'' =
     Artifacts \<lparr> laz = ''Lazarus-3.0-macosx-darwin.pkg'',
                 fpc = ''fpc-3.2.2.intelarm64-macosx.dmg'',
                 fpcsrc = ''fpc-src-3.2.2-20210709-laz.dmg'' \<rparr>
   \<and> createLazarusFileName ''darwin'' ''x64'' ''2.0.8'' =
     Artifacts \<lparr> laz = ''LazarusIDE-2.0.8-macos-x86_64.pkg'',
                 fpc = ''fpc-3.0.4-macos-x86_64-laz-2.dmg'',
                 fpcsrc = ''fpc-src-3.0.4-laz.pkg'' \<rparr>"
proof -
  have h: "''3.0'' \<noteq> ''2.0.8''" by simp
  from createLazarusFileName_darwin [of "''x64''" "''3.0''"] h
    createLazarusFileName_darwin [of "''x64''" "''2.0.8''"]
  show ?thesis by (simp add: findFPCVersion_def startsWith_def)
qed


section \<open>The installation: results\<close>

text \<open>
  C4. On macOS, for every requested version that starts with \<open>1.\<close>, or that starts
  with \<open>2.0\<close> and is not 2.0.8, \<open>installLazarus\<close> throws the error \<open>GitHub runners do
  not support Lazarus below 2.0.8 on macos\<close>, and all it has done by then is to write its
  first message: no cache restore, no download and no command.
\<close>

theorem installLazarus_darwin_below_2_0_8:
  assumes "Platform this = ''darwin''"
    and "startsWith (LazarusVersion this) ''1.''
         \<or> (startsWith (LazarusVersion this) ''2.0'' \<and> LazarusVersion this \<noteq> ''2.0.8'')"
  shows "\<exists>msg. installLazarus r this h =
           (Inl (Error ''GitHub runners do not support Lazarus below 2.0.8 on macos''),
            h @ [Info msg])"
proof -
  have "LazarusVersion this \<noteq> ''dist''" "LazarusVersion this \<noteq> ''stable''"
    using assms(2) by (auto simp: startsWith_def)
  then show ?thesis
    using assms by (auto simp: installLazarus_def action_defs)
qed

theorem installLazarus_darwin_below_2_0_8_witness:
  "fst (installLazarus (sampleRunner ''darwin'' (Some ''/tmp''))
          (constructor (sampleRunner ''darwin'' (Some ''/tmp'')) ''1.5'' False) []) =
     Inl (Error ''GitHub runners do not support Lazarus below 2.0.8 on macos'')
   \<and> commands (snd (installLazarus (sampleRunner ''darwin'' (Some ''/tmp''))
          (constructor (sampleRunner ''darwin'' (Some ''/tmp'')) ''1.5'' False) [])) = []
   \<and> downloadURLs (snd (installLazarus (sampleRunner ''darwin'' (Some ''/tmp''))
          (constructor (sampleRunner ''darwin'' (Some ''/tmp'')) ''1.5'' False) [])) = []
   \<and> restores (snd (installLazarus (sampleRunner ''darwin'' (Some ''/tmp''))
          (constructor (sampleRunner ''darwin'' (Some ''/tmp'')) ''2.0.10'' True) [])) = []"
proof -
  let ?r = "sampleRunner ''darwin'' (Some ''/tmp'')"
  have p: "Platform (constructor ?r v c) = ''darwin''" for v c
    by (simp add: constructor_def sampleRunner_def)
  have a: "startsWith (LazarusVersion (constructor ?r ''1.5'' False)) ''1.''
           \<or> (startsWith (LazarusVersion (constructor ?r ''1.5'' False)) ''2.0''
              \<and> LazarusVersion (constructor ?r ''1.5'' False) \<noteq> ''2.0.8'')"
    by (simp add: constructor_def startsWith_def)
  have b: "startsWith (LazarusVersion (constructor ?r ''2.0.10'' True)) ''1.''
           \<or> (startsWith (LazarusVersion (constructor ?r ''2.0.10'' True)) ''2.0''
              \<and> LazarusVersion (constructor ?r ''2.0.10'' True) \<noteq> ''2.0.8'')"
    by (simp add: constructor_def startsWith_def)
  from installLazarus_darwin_below_2_0_8 [OF p a, of ?r "[]"]
    installLazarus_darwin_below_2_0_8 [OF p b, of ?r "[]"]
  show ?thesis by auto
qed




text \<open>
  C5, as the code has it. In every run of \<open>_downloadLazarus\<close>: when the cache restore
  succeeds, no download is issued; when it fails, the cache is disabled or the platform
  is Windows, the downloads issued are the first of the required artifacts, in the order
  of the installation and each once (the installer on Windows; the sources of the
  compiler, the compiler and the IDE on Linux and macOS), and they are all of them in
  every run that does not fail: a step that fails ends the run, and the artifacts after
  it are not downloaded.
\<close>

theorem downloadLazarus_downloads:
  "(restoreSucceeds r this h \<longrightarrow>
      downloadURLs (newEvents h (snd (downloadLazarus r this h))) = [])
   \<and> (\<not> restoreSucceeds r this h \<longrightarrow>
      prefix (downloadURLs (newEvents h (snd (downloadLazarus r this h)))) (requiredURLs r this)
      \<and> (\<not> failed (downloadLazarus r this h) \<longrightarrow>
           downloadURLs (newEvents h (snd (downloadLazarus r this h))) = requiredURLs r this))"
  using issues_downloadLazarus [of r this h] unfolding issues_def by auto

theorem downloadLazarus_downloads_witness:
  "restoreSucceeds (cachedRunner ''linux'' (Some ''/tmp''))
        (constructor (cachedRunner ''linux'' (Some ''/tmp'')) ''3.0'' True) []
   \<and> downloadURLs (snd (downloadLazarus (cachedRunner ''linux'' (Some ''/tmp''))
        (constructor (cachedRunner ''linux'' (Some ''/tmp'')) ''3.0'' True) [])) = []
   \<and> \<not> restoreSucceeds (sampleRunner ''linux'' (Some ''/tmp''))
        (constructor (sampleRunner ''linux'' (Some ''/tmp'')) ''3.0'' False) []
   \<and> \<not> failed (downloadLazarus (sampleRunner ''linux'' (Some ''/tmp''))
        (constructor (sampleRunner ''linux'' (Some ''/tmp'')) ''3.0'' False) [])
   \<and> downloadURLs (snd (downloadLazarus (sampleRunner ''linux'' (Some ''/tmp''))
        (constructor (sampleRunner ''linux'' (Some ''/tmp'')) ''3.0'' False) [])) =
      [''https://sourceforge.net/projects/lazarus/files/Lazarus%20Linux%20amd64%20DEB/Lazarus%203.0/fpc-src_3.2.2-210709_amd64.deb'',
       ''https://sourceforge.net/projects/lazarus/files/Lazarus%20Linux%20amd64%20DEB/Lazarus%203.0/fpc_3.2.2-210709_amd64.deb'',
       ''https://sourceforge.net/projects/lazarus/files/Lazarus%20Linux%20amd64%20DEB/Lazarus%203.0/lazarus-project_3.0-0_amd64.deb'']"
proof -
  let ?c = "cachedRunner ''linux'' (Some ''/tmp'')"
  let ?l = "sampleRunner ''linux'' (Some ''/tmp'')"
  have a: "restoreSucceeds ?c (constructor ?c ''3.0'' True) []"
    by (simp add: restoreSucceeds_def restore_def constructor_def cachedRunner_def sampleRunner_def)
  have c: "\<not> restoreSucceeds ?l (constructor ?l ''3.0'' False) []"
    by (simp add: restoreSucceeds_def restore_def constructor_def sampleRunner_def)
  have d: "\<not> failed (downloadLazarus ?l (constructor ?l ''3.0'' False) [])"
    by (simp add: run_defs)
  have rl: "requiredURLs ?l (constructor ?l ''3.0'' False) =
      [''https://sourceforge.net/projects/lazarus/files/Lazarus%20Linux%20amd64%20DEB/Lazarus%203.0/fpc-src_3.2.2-210709_amd64.deb'',
       ''https://sourceforge.net/projects/lazarus/files/Lazarus%20Linux%20amd64%20DEB/Lazarus%203.0/fpc_3.2.2-210709_amd64.deb'',
       ''https://sourceforge.net/projects/lazarus/files/Lazarus%20Linux%20amd64%20DEB/Lazarus%203.0/lazarus-project_3.0-0_amd64.deb'']"
    by (simp add: run_defs)
  from downloadLazarus_downloads [of ?c "constructor ?c ''3.0'' True" "[]"] a
  have 1: "downloadURLs (snd (downloadLazarus ?c (constructor ?c ''3.0'' True) [])) = []"
    by simp
  from downloadLazarus_downloads [of ?l "constructor ?l ''3.0'' False" "[]"] c d rl
  have 2: "downloadURLs (snd (downloadLazarus ?l (constructor ?l ''3.0'' False) [])) =
      [''https://sourceforge.net/projects/lazarus/files/Lazarus%20Linux%20amd64%20DEB/Lazarus%203.0/fpc-src_3.2.2-210709_amd64.deb'',
       ''https://sourceforge.net/projects/lazarus/files/Lazarus%20Linux%20amd64%20DEB/Lazarus%203.0/fpc_3.2.2-210709_amd64.deb'',
       ''https://sourceforge.net/projects/lazarus/files/Lazarus%20Linux%20amd64%20DEB/Lazarus%203.0/lazarus-project_3.0-0_amd64.deb'']"
    by simp
  from a c d 1 2 show ?thesis by simp
qed

text \<open>
  C5 as it is stated asks for one download for each required artifact in every run in
  which the cache was not restored. On a Linux runner with the cache disabled and no
  network the download of the sources of the compiler fails and ends the run: one
  download was issued, and three artifacts are required.
\<close>

theorem downloadLazarus_downloads_counterexample:
  "\<not> restoreSucceeds (offlineRunner ''linux'' (Some ''/tmp''))
        (constructor (offlineRunner ''linux'' (Some ''/tmp'')) ''3.0'' False) []
   \<and> downloadURLs (newEvents [] (snd (downloadLazarus (offlineRunner ''linux'' (Some ''/tmp''))
        (constructor (offlineRunner ''linux'' (Some ''/tmp'')) ''3.0'' False) []))) =
      [''https://sourceforge.net/projects/lazarus/files/Lazarus%20Linux%20amd64%20DEB/Lazarus%203.0/fpc-src_3.2.2-210709_amd64.deb'']
   \<and> requiredURLs (offlineRunner ''linux'' (Some ''/tmp''))
        (constructor (offlineRunner ''linux'' (Some ''/tmp'')) ''3.0'' False) =
      [''https://sourceforge.net/projects/lazarus/files/Lazarus%20Linux%20amd64%20DEB/Lazarus%203.0/fpc-src_3.2.2-210709_amd64.deb'',
       ''https://sourceforge.net/projects/lazarus/files/Lazarus%20Linux%20amd64%20DEB/Lazarus%203.0/fpc_3.2.2-210709_amd64.deb'',
       ''https://sourceforge.net/projects/lazarus/files/Lazarus%20Linux%20amd64%20DEB/Lazarus%203.0/lazarus-project_3.0-0_amd64.deb'']
   \<and> fst (downloadLazarus (offlineRunner ''linux'' (Some ''/tmp''))
        (constructor (offlineRunner ''linux'' (Some ''/tmp'')) ''3.0'' False) []) =
      Inl (DownloadFailed ''https://sourceforge.net/projects/lazarus/files/Lazarus%20Linux%20amd64%20DEB/Lazarus%203.0/fpc-src_3.2.2-210709_amd64.deb'')"
  by (simp add: run_defs)

text \<open>
  C8. After every run of \<open>_downloadLazarus\<close> on Windows that succeeds, the directories
  added to the path are the directory of the installation, \<open><RUNNER_TEMP>/installers/lazarus\<close>,
  and the directory of the compiler binaries, \<open><lazarusDir>/fpc/<v>/bin/x86_64-win64\<close>
  (or \<open>-win32\<close>), in this order, and the one variable exported is \<open>FPCDIR\<close> with the
  value \<open><lazarusDir>/fpc/<v>\<close>, the paths joined by \<open>path.join\<close>. Here \<open><v>\<close> is the
  fourth of the parts that the dashes separate in the name of the installer
  \<open>lazarus-<version>-fpc-<fpcver>-<arch>.exe\<close>, and it is \<open>findFPCVersion(version)\<close>
  for every version with no dash in it.
\<close>

theorem win32_path_and_FPCDIR:
  assumes "Platform this = ''win32''"
    and "\<not> failed (downloadLazarus r this h)"
  shows "\<exists>t v. RUNNER_TEMP r = Some t
           \<and> at_index (split CHR ''-'' (installerName r (LazarusVersion this))) 3 = Some v
           \<and> pathsAdded (newEvents h (snd (downloadLazarus r this h))) =
               [pathJoin r [pathJoin r [t, ''installers''], ''lazarus''],
                pathJoin r [pathJoin r [pathJoin r [t, ''installers''], ''lazarus''],
                            ''fpc'', v, ''bin'',
                            ''x86_64-'' @ (if arch r = ''x64'' then ''win64'' else ''win32'')]]
           \<and> exported (newEvents h (snd (downloadLazarus r this h))) =
               [(''FPCDIR'',
                 pathJoin r [pathJoin r [pathJoin r [t, ''installers''], ''lazarus''], ''fpc'', v])]
           \<and> (CHR ''-'' \<notin> set (LazarusVersion this) \<longrightarrow> v = findFPCVersion (LazarusVersion this))"
proof -
  have eq: "downloadLazarus r this = downloadLazarus_win32 r this False"
    using assms(1) by (rule downloadLazarus_on_win32)
  from win32_success [of r this h] assms(2)
  obtain t v where tv: "RUNNER_TEMP r = Some t"
    "at_index (split CHR ''-'' (installerName r (LazarusVersion this))) 3 = Some v"
    "pathsAdded (newEvents h (snd (downloadLazarus r this h))) =
               [pathJoin r [pathJoin r [t, ''installers''], ''lazarus''],
                pathJoin r [pathJoin r [pathJoin r [t, ''installers''], ''lazarus''],
                            ''fpc'', v, ''bin'',
                            ''x86_64-'' @ (if arch r = ''x64'' then ''win64'' else ''win32'')]]"
    "exported (newEvents h (snd (downloadLazarus r this h))) =
               [(''FPCDIR'',
                 pathJoin r [pathJoin r [pathJoin r [t, ''installers''], ''lazarus''], ''fpc'', v])]"
    unfolding eq by blast
  have "CHR ''-'' \<notin> set (LazarusVersion this) \<longrightarrow> v = findFPCVersion (LazarusVersion this)"
    using tv(2) installerName_fourth [of "LazarusVersion this" r] by auto
  with tv show ?thesis by blast
qed

theorem win32_path_and_FPCDIR_witness:
  "\<not> failed (downloadLazarus (sampleRunner ''win32'' (Some ''C:/tmp''))
        (constructor (sampleRunner ''win32'' (Some ''C:/tmp'')) ''3.0'' False) [])
   \<and> pathsAdded (snd (downloadLazarus (sampleRunner ''win32'' (Some ''C:/tmp''))
        (constructor (sampleRunner ''win32'' (Some ''C:/tmp'')) ''3.0'' False) [])) =
      [''C:/tmp/installers/lazarus'', ''C:/tmp/installers/lazarus/fpc/3.2.2/bin/x86_64-win64'']
   \<and> exported (snd (downloadLazarus (sampleRunner ''win32'' (Some ''C:/tmp''))
        (constructor (sampleRunner ''win32'' (Some ''C:/tmp'')) ''3.0'' False) [])) =
      [(''FPCDIR'', ''C:/tmp/installers/lazarus/fpc/3.2.2'')]
   \<and> findFPCVersion ''3.0'' = ''3.2.2''"
proof -
  let ?r = "sampleRunner ''win32'' (Some ''C:/tmp'')"
  have p: "Platform (constructor ?r ''3.0'' False) = ''win32''"
    by (simp add: constructor_def sampleRunner_def)
  have ok: "\<not> failed (downloadLazarus ?r (constructor ?r ''3.0'' False) [])"
    by (simp add: run_defs split_at_sep)
  have d: "CHR ''-'' \<notin> set (LazarusVersion (constructor ?r ''3.0'' False))"
    by (simp add: constructor_def)
  from win32_path_and_FPCDIR [OF p ok] d ok
  show ?thesis
    by (auto simp: constructor_def sampleRunner_def findFPCVersion_def startsWith_def)
qed




text \<open>
  C9, as the code has it. On Windows \<open>_downloadLazarus\<close> never calls
  \<open>Cache.restore\<close>, so \<open>cacheRestored\<close> is false there: the run does not depend on the
  cache of the object, two runs that differ only in the flag \<open>WithCache\<close> are the same
  run, and the download of the installer is issued, once, in every run on Windows in
  which \<open>RUNNER_TEMP\<close> is set. When \<open>RUNNER_TEMP\<close> is not set (or empty), the run ends
  with the assertion of \<open>_getTempDirectory\<close> before the download, and nothing is
  downloaded.
\<close>

theorem win32_cache_ignored:
  "(Platform this = ''win32'' \<longrightarrow>
      downloadLazarus r (this\<lparr>Cache := c\<rparr>) h = downloadLazarus r this h
      \<and> restores (newEvents h (snd (downloadLazarus r this h))) = []
      \<and> (RUNNER_TEMP r \<noteq> None \<and> RUNNER_TEMP r \<noteq> Some [] \<longrightarrow>
           downloadURLs (newEvents h (snd (downloadLazarus r this h))) =
             [getPackageURL r this ''laz''])
      \<and> (RUNNER_TEMP r = None \<or> RUNNER_TEMP r = Some [] \<longrightarrow>
           fst (downloadLazarus r this h) =
             Inl (AssertionError ''Expected RUNNER_TEMP to be defined'')
           \<and> downloadURLs (newEvents h (snd (downloadLazarus r this h))) = []))
   \<and> (platform r = ''win32'' \<longrightarrow>
      installLazarus r (constructor r ver True) h = installLazarus r (constructor r ver False) h)"
proof (intro conjI impI)
  assume p: "Platform this = ''win32''"
  show "downloadLazarus r (this\<lparr>Cache := c\<rparr>) h = downloadLazarus r this h"
    using p by (simp add: downloadLazarus_cache)
  show "restores (newEvents h (snd (downloadLazarus r this h))) = []"
  proof (cases "RUNNER_TEMP r = None \<or> RUNNER_TEMP r = Some []")
    case True
    from win32_no_temp [OF True, of this h] show ?thesis
      by (auto simp: downloadLazarus_on_win32 [OF p])
  next
    case False
    then obtain t where "RUNNER_TEMP r = Some t" "t \<noteq> []" by auto
    from win32_with_temp [OF this, of this h] show ?thesis
      by (auto simp: downloadLazarus_on_win32 [OF p])
  qed
next
  assume p: "Platform this = ''win32''"
    and "RUNNER_TEMP r \<noteq> None \<and> RUNNER_TEMP r \<noteq> Some []"
  then obtain t where "RUNNER_TEMP r = Some t" "t \<noteq> []" by auto
  from win32_with_temp [OF this, of this h]
  show "downloadURLs (newEvents h (snd (downloadLazarus r this h))) = [getPackageURL r this ''laz'']"
    by (auto simp: downloadLazarus_on_win32 [OF p])
next
  assume p: "Platform this = ''win32''"
    and t: "RUNNER_TEMP r = None \<or> RUNNER_TEMP r = Some []"
  from win32_no_temp [OF t, of this h]
  show "fst (downloadLazarus r this h) = Inl (AssertionError ''Expected RUNNER_TEMP to be defined'')"
    by (auto simp: downloadLazarus_on_win32 [OF p])
  from win32_no_temp [OF t, of this h]
  show "downloadURLs (newEvents h (snd (downloadLazarus r this h))) = []"
    by (auto simp: downloadLazarus_on_win32 [OF p])
next
  assume p: "platform r = ''win32''"
  have a: "Platform (constructor r ver False) = ''win32''"
    using p by (simp add: constructor_def)
  have b: "Platform (rewriteVersion (constructor r ver False)) = ''win32''"
    using p by (simp add: constructor_def rewriteVersion_def Let_def)
  have 1: "downloadLazarus r (constructor r ver True) = downloadLazarus r (constructor r ver False)"
    by (subst constructor_cache) (rule downloadLazarus_cache [OF a])
  have 2: "downloadLazarus r (rewriteVersion (constructor r ver True))
         = downloadLazarus r (rewriteVersion (constructor r ver False))"
    by (subst rewriteVersion_cache) (rule downloadLazarus_cache [OF b])
  have f: "LazarusVersion (constructor r ver wc) = ver" "Platform (constructor r ver wc) = platform r"
     "Arch (constructor r ver wc) = arch r" for wc
    by (simp_all add: constructor_def)
  show "installLazarus r (constructor r ver True) h = installLazarus r (constructor r ver False) h"
    unfolding installLazarus_def f 1 2 ..
qed

theorem win32_cache_ignored_witness:
  "downloadLazarus (cachedRunner ''win32'' (Some ''C:/tmp''))
      ((constructor (cachedRunner ''win32'' (Some ''C:/tmp'')) ''3.0'' False)
         \<lparr>Cache := \<lparr>withCache = True, key = ''3.0-x64-win32''\<rparr>\<rparr>) [] =
    downloadLazarus (cachedRunner ''win32'' (Some ''C:/tmp''))
      (constructor (cachedRunner ''win32'' (Some ''C:/tmp'')) ''3.0'' False) []
   \<and> restores (snd (downloadLazarus (cachedRunner ''win32'' (Some ''C:/tmp''))
        (constructor (cachedRunner ''win32'' (Some ''C:/tmp'')) ''3.0'' False) [])) = []
   \<and> downloadURLs (snd (downloadLazarus (cachedRunner ''win32'' (Some ''C:/tmp''))
        (constructor (cachedRunner ''win32'' (Some ''C:/tmp'')) ''3.0'' False) [])) =
      [''https://sourceforge.net/projects/lazarus/files/Lazarus%20Windows%2064%20bits/Lazarus%203.0/lazarus-3.0-fpc-3.2.2-win64.exe'']
   \<and> fst (downloadLazarus (sampleRunner ''win32'' None)
        (constructor (sampleRunner ''win32'' None) ''3.0'' True) []) =
      Inl (AssertionError ''Expected RUNNER_TEMP to be defined'')
   \<and> installLazarus (cachedRunner ''win32'' (Some ''C:/tmp''))
        (constructor (cachedRunner ''win32'' (Some ''C:/tmp'')) ''stable'' True) [] =
      installLazarus (cachedRunner ''win32'' (Some ''C:/tmp''))
        (constructor (cachedRunner ''win32'' (Some ''C:/tmp'')) ''stable'' False) []"
proof -
  let ?r = "cachedRunner ''win32'' (Some ''C:/tmp'')"
  let ?n = "sampleRunner ''win32'' None"
  have p: "Platform (constructor ?r ''3.0'' False) = ''win32''"
    by (simp add: constructor_def cachedRunner_def sampleRunner_def)
  have pn: "Platform (constructor ?n ''3.0'' True) = ''win32''"
    by (simp add: constructor_def sampleRunner_def)
  have q: "platform ?r = ''win32''"
    by (simp add: cachedRunner_def sampleRunner_def)
  have t: "RUNNER_TEMP ?r \<noteq> None \<and> RUNNER_TEMP ?r \<noteq> Some []"
    by (simp add: cachedRunner_def sampleRunner_def)
  have tn: "RUNNER_TEMP ?n = None \<or> RUNNER_TEMP ?n = Some []"
    by (simp add: sampleRunner_def)
  have u: "getPackageURL ?r (constructor ?r ''3.0'' False) ''laz'' =
      ''https://sourceforge.net/projects/lazarus/files/Lazarus%20Windows%2064%20bits/Lazarus%203.0/lazarus-3.0-fpc-3.2.2-win64.exe''"
    by (simp add: run_defs)
  from win32_cache_ignored [of "constructor ?r ''3.0'' False" ?r
        "\<lparr>withCache = True, key = ''3.0-x64-win32''\<rparr>" "[]" "''stable''"]
    win32_cache_ignored [of "constructor ?n ''3.0'' True" ?n
        "\<lparr>withCache = True, key = ''3.0-x64-win32''\<rparr>" "[]" "''stable''"]
    p pn q t tn u
  show ?thesis by simp
qed

text \<open>
  C9 as it is stated has the installer downloaded on every run on Windows. On a Windows
  runner where \<open>RUNNER_TEMP\<close> is not set, the destination of the download is computed
  first, \<open>_getTempDirectory\<close> throws, and the run ends with no download.
\<close>

theorem win32_cache_ignored_counterexample:
  "platform (sampleRunner ''win32'' None) = ''win32''
   \<and> downloadURLs (snd (installLazarus (sampleRunner ''win32'' None)
        (constructor (sampleRunner ''win32'' None) ''3.0'' True) [])) = []
   \<and> fst (installLazarus (sampleRunner ''win32'' None)
        (constructor (sampleRunner ''win32'' None) ''3.0'' True) []) =
      Inl (AssertionError ''Expected RUNNER_TEMP to be defined'')"
  by (simp add: run_defs)

text \<open>
  C10. Whenever \<open>_downloadLazarus\<close> is called, the key of the cache is the composite
  \<open><version>-<architecture>-<platform>\<close> of the object it is called on. The
  constructor establishes the equality; the rewriting of the version to the stable
  version 4.2, on the paths of both aliases, rewrites the key with the version, so the
  equality holds after it whatever the object was; and \<open>installLazarus\<close> changes
  nothing else. So, started on an object whose key is the composite, \<open>installLazarus\<close>
  calls its download procedure only on objects whose key is the composite: a procedure
  that does anything else on the other objects gives the same run.
\<close>

theorem cache_key_invariant:
  "key (Cache (constructor r ver wc)) =
     LazarusVersion (constructor r ver wc) @ ''-'' @ Arch (constructor r ver wc) @ ''-''
     @ Platform (constructor r ver wc)
   \<and> key (Cache (rewriteVersion this)) =
     LazarusVersion (rewriteVersion this) @ ''-'' @ Arch (rewriteVersion this) @ ''-''
     @ Platform (rewriteVersion this)
   \<and> LazarusVersion (rewriteVersion this) = ''4.2''
   \<and> installLazarus r this h = installLazarus_with downloadLazarus r this h
   \<and> (key (Cache this) = LazarusVersion this @ ''-'' @ Arch this @ ''-'' @ Platform this \<longrightarrow>
        installLazarus_with dl r this h = installLazarus_with (guarded dl other) r this h)"
proof (intro conjI impI)
  show "key (Cache (rewriteVersion this)) =
     LazarusVersion (rewriteVersion this) @ ''-'' @ Arch (rewriteVersion this) @ ''-''
     @ Platform (rewriteVersion this)"
    by (simp add: rewriteVersion_def Let_def)
  then have g: "guarded dl other r (rewriteVersion this) = dl r (rewriteVersion this)"
    by (simp add: guarded_def)
  assume "key (Cache this) = LazarusVersion this @ ''-'' @ Arch this @ ''-'' @ Platform this"
  then have "guarded dl other r this = dl r this"
    by (simp add: guarded_def)
  with g show "installLazarus_with dl r this h = installLazarus_with (guarded dl other) r this h"
    by (simp only: installLazarus_with_def)
qed (simp_all add: constructor_def rewriteVersion_def Let_def StableVersion_def
      installLazarus_eq_with)

theorem cache_key_invariant_witness:
  "installLazarus (sampleRunner ''win32'' (Some ''C:/tmp''))
       (constructor (sampleRunner ''win32'' (Some ''C:/tmp'')) ''dist'' True) [] =
     installLazarus_with (guarded downloadLazarus (\<lambda>r this. throw TypeError))
       (sampleRunner ''win32'' (Some ''C:/tmp''))
       (constructor (sampleRunner ''win32'' (Some ''C:/tmp'')) ''dist'' True) []
   \<and> installLazarus (sampleRunner ''linux'' (Some ''/tmp''))
       (constructor (sampleRunner ''linux'' (Some ''/tmp'')) ''3.0'' True) [] =
     installLazarus_with (guarded downloadLazarus (\<lambda>r this. throw TypeError))
       (sampleRunner ''linux'' (Some ''/tmp''))
       (constructor (sampleRunner ''linux'' (Some ''/tmp'')) ''3.0'' True) []
   \<and> key (Cache (rewriteVersion (constructor (sampleRunner ''win32'' (Some ''C:/tmp'')) ''dist'' True)))
       = ''4.2-x64-win32''
   \<and> fst (installLazarus_with (guarded downloadLazarus (\<lambda>r this. throw TypeError))
       (sampleRunner ''linux'' (Some ''/tmp''))
       ((constructor (sampleRunner ''linux'' (Some ''/tmp'')) ''3.0'' True)
          \<lparr>Cache := \<lparr>withCache = True, key = ''dist-x64-linux''\<rparr>\<rparr>) []) = Inl TypeError"
proof -
  let ?w = "sampleRunner ''win32'' (Some ''C:/tmp'')"
  let ?l = "sampleRunner ''linux'' (Some ''/tmp'')"
  let ?o = "\<lambda>(r::runner) (this::lazarus). (throw TypeError :: unit action)"
  have kw: "key (Cache (constructor ?w ''dist'' True)) =
     LazarusVersion (constructor ?w ''dist'' True) @ ''-'' @ Arch (constructor ?w ''dist'' True)
     @ ''-'' @ Platform (constructor ?w ''dist'' True)"
    by (simp add: constructor_def)
  have kl: "key (Cache (constructor ?l ''3.0'' True)) =
     LazarusVersion (constructor ?l ''3.0'' True) @ ''-'' @ Arch (constructor ?l ''3.0'' True)
     @ ''-'' @ Platform (constructor ?l ''3.0'' True)"
    by (simp add: constructor_def)
  have bad: "fst (installLazarus_with (guarded downloadLazarus ?o) ?l
       ((constructor ?l ''3.0'' True)\<lparr>Cache := \<lparr>withCache = True, key = ''dist-x64-linux''\<rparr>\<rparr>) [])
       = Inl TypeError"
    by (simp add: installLazarus_with_def guarded_def constructor_def sampleRunner_def
        action_defs startsWith_def)
  note W = cache_key_invariant [where r = ?w and ver = "''dist''" and wc = True
        and this = "constructor ?w ''dist'' True" and h = "[]" and dl = downloadLazarus
        and other = ?o]
  note L = cache_key_invariant [where r = ?l and ver = "''3.0''" and wc = True
        and this = "constructor ?l ''3.0'' True" and h = "[]" and dl = downloadLazarus
        and other = ?o]
  from W kw have 1: "installLazarus ?w (constructor ?w ''dist'' True) [] =
      installLazarus_with (guarded downloadLazarus ?o) ?w (constructor ?w ''dist'' True) []"
    by presburger
  from L kl have 2: "installLazarus ?l (constructor ?l ''3.0'' True) [] =
      installLazarus_with (guarded downloadLazarus ?o) ?l (constructor ?l ''3.0'' True) []"
    by presburger
  have 3: "key (Cache (rewriteVersion (constructor ?w ''dist'' True))) = ''4.2-x64-win32''"
    by (simp add: rewriteVersion_def constructor_def sampleRunner_def Let_def StableVersion_def)
  from 1 2 3 bad show ?thesis by blast
qed

end
